theory Spec2Isabelle
  imports Main
begin

section \<open>Data model\<close>

text \<open>
  \<^verbatim>\<open>models/book.go\<close>:
  \<^verbatim>\<open>type Book struct { ID uint; Title string; Author string }\<close>.
  The key is assigned by the storage backend; it is modelled as a natural number (no
  arithmetic of the handlers ever touches it).
\<close>

record Book =
  ID :: nat
  Title :: string
  Author :: string

text \<open>
  The two input schemas of \<^verbatim>\<open>controllers/books.go\<close>. Both have the fields
  \<^verbatim>\<open>Title\<close> and \<^verbatim>\<open>Author\<close> (JSON members \<^verbatim>\<open>title\<close>, \<^verbatim>\<open>author\<close>); only
  \<^verbatim>\<open>CreateBookInput\<close> tags them \<^verbatim>\<open>binding:"required"\<close>. Neither has an \<^verbatim>\<open>ID\<close> field.
\<close>

record CreateBookInput =
  create_Title :: string
  create_Author :: string

record UpdateBookInput =
  update_Title :: string
  update_Author :: string

text \<open>
  A request body, as the JSON decoder sees it. \<open>Undecodable msg\<close> is a body that cannot
  be decoded into a struct with two string fields (no JSON at all, an empty body, a
  member \<^verbatim>\<open>title\<close> or \<^verbatim>\<open>author\<close> that is not a string); \<open>msg\<close> is the decoder's
  message. \<open>Object j\<close> is a JSON object; of its members only \<^verbatim>\<open>id\<close>, \<^verbatim>\<open>title\<close> and
  \<^verbatim>\<open>author\<close> are kept (\<open>None\<close>: the member is absent).
\<close>

record json_object =
  json_id :: "int option"
  json_title :: "string option"
  json_author :: "string option"

datatype body = Undecodable string | Object json_object

text \<open>What \<^verbatim>\<open>c.ShouldBindJSON\<close> can return as \<^verbatim>\<open>err\<close>: the decoder's error, or the
  validator's list of fields that failed the \<^verbatim>\<open>required\<close> tag.\<close>

datatype bind_error = Decode_Error string | Required_Error "string list"

text \<open>The errors of a storage call (\<^verbatim>\<open>.Error\<close> of the value a gorm call returns).\<close>

datatype gorm_error = ErrRecordNotFound | ErrMissingWhereClause | ErrBackend

text \<open>
  \<^verbatim>\<open>gin.H\<close>, the response envelope: \<^verbatim>\<open>{"data": ...}\<close> or \<^verbatim>\<open>{"error": ...}\<close>.
  \<open>Data_Books None\<close> is the nil slice (\<^verbatim>\<open>var books []models.Book\<close> never filled).
  \<open>Error_Text\<close> carries a string literal of the source, \<open>Error_Of\<close> the text of a
  binding error (\<^verbatim>\<open>err.Error()\<close>).
\<close>

datatype H =
    Data_Books "Book list option"
  | Data_Book Book
  | Data_Bool bool
  | Error_Text string
  | Error_Of bind_error

record response =
  code :: nat
  obj :: H

abbreviation StatusOK :: nat where "StatusOK \<equiv> 200"
abbreviation StatusBadRequest :: nat where "StatusBadRequest \<equiv> 400"

definition JSON :: "nat \<Rightarrow> H \<Rightarrow> response" where
  "JSON st h = \<lparr>code = st, obj = h\<rparr>"

text \<open>The response of every handler that looks a book up and finds none.\<close>

abbreviation NF :: response where
  "NF \<equiv> JSON StatusBadRequest (Error_Text ''Record not found!'')"

section \<open>The storage backend\<close>

text \<open>
  The storage calls the handlers make on \<^verbatim>\<open>models.DB\<close>, by the gorm method that runs
  the statement.
\<close>

datatype op = Op_Find | Op_First | Op_Create | Op_Updates | Op_Delete

text \<open>
  The process-wide handle \<^verbatim>\<open>models.DB\<close>, after \<^verbatim>\<open>ConnectDatabase\<close> has set it:
  \<^item> \<open>books\<close>: the rows of table \<^verbatim>\<open>books\<close>;
  \<^item> \<open>key_of_text\<close>: how the backend of the handle compares a text parameter with the
    integer key column in \<^verbatim>\<open>id = ?\<close>: the key the text equals, \<open>None\<close> when it
    equals no key (the comparison belongs to the SQL engine, not to the program);
  \<^item> \<open>failing\<close>: the storage calls the backend currently rejects (connection lost, disk
    full, table locked);
  \<^item> \<open>calls\<close>: the journal of the storage calls made so far, oldest first. The journal
    is not state of the program: it records the order of the calls so that properties
    about it can be stated.
\<close>

record DB =
  books :: "Book list"
  key_of_text :: "string \<Rightarrow> nat option"
  failing :: "op set"
  calls :: "op list"

definition journal :: "op \<Rightarrow> DB \<Rightarrow> DB" where
  "journal k db = db\<lparr>calls := calls db @ [k]\<rparr>"

text \<open>
  \<^verbatim>\<open>models/setup.go\<close>, \<^verbatim>\<open>ConnectDatabase\<close>. \<open>opened\<close> is what \<^verbatim>\<open>gorm.Open\<close>
  returns (an error or the handle), \<open>migrated\<close> the error of \<^verbatim>\<open>AutoMigrate\<close>. When
  opening fails the function panics and the process ends; when the migration fails it
  returns and leaves \<^verbatim>\<open>models.DB\<close> unset (\<open>None\<close>: the nil pointer); otherwise it sets
  \<^verbatim>\<open>models.DB\<close>. The handlers below are those of a process whose handle is set.
\<close>

datatype startup = Panic string | Returned "DB option"

definition ConnectDatabase :: "gorm_error + DB \<Rightarrow> gorm_error option \<Rightarrow> startup" where
  "ConnectDatabase opened migrated =
     (case opened of
        Inl err \<Rightarrow> Panic ''Failed to connect to database!''
      | Inr database \<Rightarrow>
          (case migrated of
             Some err \<Rightarrow> Returned None
           | None \<Rightarrow> Returned (Some database)))"

text \<open>
  The key the backend gives a new row: one more than the largest key in the table
  (\<open>1\<close> in an empty table).
\<close>

definition next_id :: "Book list \<Rightarrow> nat" where
  "next_id bs = Suc (fold max (map ID bs) 0)"

text \<open>
  The \<open>key_of_text\<close> of the backend that \<^verbatim>\<open>ConnectDatabase\<close> opens, SQLite
  (\<^verbatim>\<open>sqlite.Open("test.db")\<close>). SQLite applies numeric affinity to a text compared with
  an integer key: the text is a number when, between optional white space, it is an
  optional sign, digits with an optional fraction (at least one digit in all) and an
  optional exponent with at least one digit; it equals the key that has the number's
  value. So \<^verbatim>\<open>1\<close>, \<^verbatim>\<open>+1\<close>, \<^verbatim>\<open>1.0\<close>, \<^verbatim>\<open>1e0\<close> and \<^verbatim>\<open>1\<close> after a space all
  equal key 1, while \<^verbatim>\<open>abc\<close>, \<^verbatim>\<open>1x\<close>, \<^verbatim>\<open>1.5\<close> and \<^verbatim>\<open>-1\<close> equal no key.
  The value is computed exactly here; SQLite computes a number that is not a plain
  integer in double precision, which gives the same key for a text of up to 15
  significant digits.
\<close>

definition is_space :: "char \<Rightarrow> bool" where
  "is_space c = ((of_char c :: nat) = 32 \<or> (9 \<le> (of_char c :: nat) \<and> (of_char c :: nat) \<le> 13))"

definition is_digit :: "char \<Rightarrow> bool" where
  "is_digit c = (48 \<le> (of_char c :: nat) \<and> (of_char c :: nat) \<le> 57)"

definition digits_nat :: "string \<Rightarrow> nat" where
  "digits_nat ds = foldl (\<lambda>a c. 10 * a + (of_char c - 48)) 0 ds"

definition split_sign :: "string \<Rightarrow> bool \<times> string" where
  "split_sign s =
     (case s of
        [] \<Rightarrow> (False, [])
      | c # r \<Rightarrow>
          if c = CHR ''-'' then (True, r)
          else if c = CHR ''+'' then (False, r)
          else (False, s))"

definition split_fraction :: "string \<Rightarrow> string \<times> string" where
  "split_fraction s =
     (case s of
        [] \<Rightarrow> ([], [])
      | c # r \<Rightarrow>
          if c = CHR ''.'' then (takeWhile is_digit r, dropWhile is_digit r)
          else ([], s))"

definition split_exponent :: "string \<Rightarrow> (int \<times> string) option" where
  "split_exponent s =
     (case s of
        [] \<Rightarrow> Some (0, [])
      | c # r \<Rightarrow>
          if c = CHR ''e'' \<or> c = CHR ''E'' then
            (case split_sign r of
               (neg, r') \<Rightarrow>
                 if takeWhile is_digit r' = [] then None
                 else Some (if neg then - int (digits_nat (takeWhile is_digit r'))
                            else int (digits_nat (takeWhile is_digit r')),
                            dropWhile is_digit r'))
          else Some (0, s))"

text \<open>
  The key that equals the number with sign \<open>neg\<close>, digits \<open>m\<close> (read as one natural
  number), \<open>f\<close> of them after the point, and exponent \<open>e\<close>, that is \<open>m\<close> times ten to
  the power \<open>e - f\<close>: the number itself when it is a natural number, none otherwise.
\<close>

definition decimal_key :: "bool \<Rightarrow> nat \<Rightarrow> nat \<Rightarrow> int \<Rightarrow> nat option" where
  "decimal_key neg m f e =
     (if m = 0 then Some 0
      else if neg then None
      else if int f \<le> e then Some (m * 10 ^ nat (e - int f))
      else if m mod 10 ^ nat (int f - e) = 0 then Some (m div 10 ^ nat (int f - e))
      else None)"

definition sqlite_key_of_text :: "string \<Rightarrow> nat option" where
  "sqlite_key_of_text s =
     (case split_sign (dropWhile is_space s) of
        (neg, s2) \<Rightarrow>
          (case split_fraction (dropWhile is_digit s2) of
             (fp, s4) \<Rightarrow>
               if takeWhile is_digit s2 = [] \<and> fp = [] then None
               else
                 (case split_exponent s4 of
                    None \<Rightarrow> None
                  | Some (e, s5) \<Rightarrow>
                      if dropWhile is_space s5 = []
                      then decimal_key neg (digits_nat (takeWhile is_digit s2 @ fp)) (length fp) e
                      else None)))"

text \<open>The decimal text of a key, as a client writes it into the path.\<close>

definition digit_char :: "nat \<Rightarrow> char" where
  "digit_char d = char_of (48 + d)"

fun param_of_id :: "nat \<Rightarrow> string" where
  "param_of_id n =
     (if n < 10 then [digit_char n]
      else param_of_id (n div 10) @ [digit_char (n mod 10)])"

text \<open>\<^verbatim>\<open>DB.Find(&books)\<close>: every row. On failure the slice stays nil.\<close>

definition DB_Find :: "DB \<Rightarrow> gorm_error option \<times> Book list option \<times> DB" where
  "DB_Find db =
     (if Op_Find \<in> failing db then (Some ErrBackend, None, journal Op_Find db)
      else (None, Some (books db), journal Op_Find db))"

text \<open>
  \<^verbatim>\<open>DB.Where("id = ?", p).First(&book)\<close>: the first row whose key equals the text
  parameter \<open>p\<close>, \<^verbatim>\<open>ErrRecordNotFound\<close> when there is none.
\<close>

definition DB_First :: "string \<Rightarrow> DB \<Rightarrow> (gorm_error + Book) \<times> DB" where
  "DB_First p db =
     (if Op_First \<in> failing db then (Inl ErrBackend, journal Op_First db)
      else
        (case key_of_text db p of
           None \<Rightarrow> (Inl ErrRecordNotFound, journal Op_First db)
         | Some k \<Rightarrow>
             (case find (\<lambda>b. ID b = k) (books db) of
                None \<Rightarrow> (Inl ErrRecordNotFound, journal Op_First db)
              | Some b \<Rightarrow> (Inr b, journal Op_First db))))"

text \<open>
  \<^verbatim>\<open>DB.Create(&book)\<close>: inserts the row and writes the assigned key back into
  \<^verbatim>\<open>book\<close>. A zero \<^verbatim>\<open>ID\<close> asks the backend for a key; a non-zero one is inserted as
  it is and rejected when the key is taken. On failure \<^verbatim>\<open>book\<close> is left as it was.
\<close>

definition DB_Create :: "Book \<Rightarrow> DB \<Rightarrow> gorm_error option \<times> Book \<times> DB" where
  "DB_Create book db =
     (if Op_Create \<in> failing db then (Some ErrBackend, book, journal Op_Create db)
      else if ID book = 0 then
        (let b = book\<lparr>ID := next_id (books db)\<rparr>
         in (None, b, journal Op_Create (db\<lparr>books := books db @ [b]\<rparr>)))
      else if ID book \<in> set (map ID (books db)) then
        (Some ErrBackend, book, journal Op_Create db)
      else (None, book, journal Op_Create (db\<lparr>books := books db @ [book]\<rparr>)))"

text \<open>
  \<^verbatim>\<open>DB.Model(&book).Updates(input)\<close> with a struct: only the non-zero (non-empty)
  fields of \<^verbatim>\<open>input\<close> are assigned, to \<^verbatim>\<open>book\<close> in memory and to the rows whose key
  is \<^verbatim>\<open>book.ID\<close>. With no field to assign no statement is run. A zero key gives no
  condition and the statement is refused.
\<close>

definition assign :: "UpdateBookInput \<Rightarrow> Book \<Rightarrow> Book" where
  "assign input b =
     b\<lparr>Title := (if update_Title input = [] then Title b else update_Title input),
       Author := (if update_Author input = [] then Author b else update_Author input)\<rparr>"

definition DB_Updates :: "Book \<Rightarrow> UpdateBookInput \<Rightarrow> DB \<Rightarrow> gorm_error option \<times> Book \<times> DB" where
  "DB_Updates book input db =
     (if update_Title input = [] \<and> update_Author input = [] then
        (None, book, journal Op_Updates db)
      else if ID book = 0 then
        (Some ErrMissingWhereClause, assign input book, journal Op_Updates db)
      else if Op_Updates \<in> failing db then
        (Some ErrBackend, assign input book, journal Op_Updates db)
      else
        (None, assign input book,
         journal Op_Updates
           (db\<lparr>books := map (\<lambda>r. if ID r = ID book then assign input r else r) (books db)\<rparr>)))"

text \<open>
  \<^verbatim>\<open>DB.Delete(&book)\<close>: removes the rows whose key is \<^verbatim>\<open>book.ID\<close> (the model has
  no deletion timestamp, so the row is gone). A zero key is refused.
\<close>

definition DB_Delete :: "Book \<Rightarrow> DB \<Rightarrow> gorm_error option \<times> DB" where
  "DB_Delete book db =
     (if ID book = 0 then (Some ErrMissingWhereClause, journal Op_Delete db)
      else if Op_Delete \<in> failing db then (Some ErrBackend, journal Op_Delete db)
      else
        (None, journal Op_Delete (db\<lparr>books := filter (\<lambda>r. ID r \<noteq> ID book) (books db)\<rparr>)))"

section \<open>Binding and validation\<close>

text \<open>Decoding the body into the two string fields: an absent member leaves the zero
  value \<^verbatim>\<open>""\<close>.\<close>

definition field :: "string option \<Rightarrow> string" where
  "field m = (case m of None \<Rightarrow> [] | Some s \<Rightarrow> s)"

text \<open>The fields that fail \<^verbatim>\<open>binding:"required"\<close>: those holding the zero value.\<close>

definition required_failures :: "CreateBookInput \<Rightarrow> string list" where
  "required_failures input =
     (if create_Title input = [] then [''Title''] else []) @
     (if create_Author input = [] then [''Author''] else [])"

definition ShouldBindJSON_create :: "body \<Rightarrow> bind_error + CreateBookInput" where
  "ShouldBindJSON_create b =
     (case b of
        Undecodable msg \<Rightarrow> Inl (Decode_Error msg)
      | Object j \<Rightarrow>
          (let input = \<lparr>create_Title = field (json_title j), create_Author = field (json_author j)\<rparr>
           in if required_failures input = [] then Inr input
              else Inl (Required_Error (required_failures input))))"

definition ShouldBindJSON_update :: "body \<Rightarrow> bind_error + UpdateBookInput" where
  "ShouldBindJSON_update b =
     (case b of
        Undecodable msg \<Rightarrow> Inl (Decode_Error msg)
      | Object j \<Rightarrow>
          Inr \<lparr>update_Title = field (json_title j), update_Author = field (json_author j)\<rparr>)"

section \<open>The handlers of controllers/books.go\<close>

text \<open>\<^verbatim>\<open>*gin.Context\<close>, as far as the handlers read it: \<^verbatim>\<open>c.Param("id")\<close> and the
  request body.\<close>

record Context =
  Param_id :: string
  Body :: body

definition FindBooks :: "Context \<Rightarrow> DB \<Rightarrow> response \<times> DB" where
  "FindBooks c db =
     (case DB_Find db of
        (err, bs, db1) \<Rightarrow> (JSON StatusOK (Data_Books bs), db1))"

definition CreateBook :: "Context \<Rightarrow> DB \<Rightarrow> response \<times> DB" where
  "CreateBook c db =
     (case ShouldBindJSON_create (Body c) of
        Inl err \<Rightarrow> (JSON StatusBadRequest (Error_Of err), db)
      | Inr input \<Rightarrow>
          (case DB_Create \<lparr>ID = 0, Title = create_Title input, Author = create_Author input\<rparr> db of
             (err, book, db1) \<Rightarrow> (JSON StatusOK (Data_Book book), db1)))"

definition FindBook :: "Context \<Rightarrow> DB \<Rightarrow> response \<times> DB" where
  "FindBook c db =
     (case DB_First (Param_id c) db of
        (Inl err, db1) \<Rightarrow> (JSON StatusBadRequest (Error_Text ''Record not found!''), db1)
      | (Inr book, db1) \<Rightarrow> (JSON StatusOK (Data_Book book), db1))"

definition UpdateBook :: "Context \<Rightarrow> DB \<Rightarrow> response \<times> DB" where
  "UpdateBook c db =
     (case DB_First (Param_id c) db of
        (Inl err, db1) \<Rightarrow> (JSON StatusBadRequest (Error_Text ''Record not found!''), db1)
      | (Inr book, db1) \<Rightarrow>
          (case ShouldBindJSON_update (Body c) of
             Inl err \<Rightarrow> (JSON StatusBadRequest (Error_Of err), db1)
           | Inr input \<Rightarrow>
               (case DB_Updates book input db1 of
                  (err, book', db2) \<Rightarrow> (JSON StatusOK (Data_Book book'), db2))))"

definition DeleteBook :: "Context \<Rightarrow> DB \<Rightarrow> response \<times> DB" where
  "DeleteBook c db =
     (case DB_First (Param_id c) db of
        (Inl err, db1) \<Rightarrow> (JSON StatusBadRequest (Error_Text ''Record not found!''), db1)
      | (Inr book, db1) \<Rightarrow>
          (case DB_Delete book db1 of
             (err, db2) \<Rightarrow> (JSON StatusOK (Data_Bool True), db2)))"

text \<open>
  \<^verbatim>\<open>models.DB\<close> is a pointer that \<^verbatim>\<open>ConnectDatabase\<close> can leave nil. Each of
  \<^verbatim>\<open>FindBook\<close>, \<^verbatim>\<open>UpdateBook\<close> and \<^verbatim>\<open>DeleteBook\<close> starts with
  \<^verbatim>\<open>models.DB.Where(...)\<close>: on the nil handle that call dereferences nil and the handler
  panics before it writes a response (the recovery middleware of \<^verbatim>\<open>gin.Default()\<close>
  then answers 500); on a set handle the handler runs as defined above.
\<close>

datatype outcome = Responded response | Panicked

definition on_handle ::
  "(Context \<Rightarrow> DB \<Rightarrow> response \<times> DB) \<Rightarrow> Context \<Rightarrow> DB option \<Rightarrow> outcome \<times> DB option"
where
  "on_handle h c handle =
     (case handle of
        None \<Rightarrow> (Panicked, None)
      | Some db \<Rightarrow> (case h c db of (r, db') \<Rightarrow> (Responded r, Some db')))"

section \<open>The routes of main.go\<close>

datatype verb = GET | POST | PUT | PATCH | DELETE

datatype HandlerFunc =
  controllers_FindBooks | controllers_FindBook | controllers_CreateBook
  | controllers_UpdateBook | controllers_DeleteBook

text \<open>A registered path is a list of segments: a literal, or a parameter (\<^verbatim>\<open>:id\<close>).\<close>

datatype segment = Lit string | Par string

text \<open>The five registrations of \<^verbatim>\<open>main\<close>, in its order.\<close>

definition routes :: "(verb \<times> segment list \<times> HandlerFunc) list" where
  "routes =
     [(GET, [Lit ''books''], controllers_FindBooks),
      (GET, [Lit ''books'', Par ''id''], controllers_FindBook),
      (POST, [Lit ''books''], controllers_CreateBook),
      (PUT, [Lit ''books'', Par ''id''], controllers_UpdateBook),
      (DELETE, [Lit ''books'', Par ''id''], controllers_DeleteBook)]"

text \<open>
  Matching a request path (its segments between the slashes) against a registered one;
  a parameter takes any non-empty segment. The result is the value of \<^verbatim>\<open>:id\<close>
  (\<^verbatim>\<open>""\<close> when the route has no parameter).
\<close>

fun match_path :: "segment list \<Rightarrow> string list \<Rightarrow> string option" where
  "match_path [] [] = Some []"
| "match_path (Lit l # ps) (s # ss) = (if l = s then match_path ps ss else None)"
| "match_path (Par x # ps) (s # ss) =
     (if s = [] then None
      else (case match_path ps ss of None \<Rightarrow> None | Some _ \<Rightarrow> Some s))"
| "match_path _ _ = None"

fun lookup_route ::
  "(verb \<times> segment list \<times> HandlerFunc) list \<Rightarrow> verb \<Rightarrow> string list \<Rightarrow> (HandlerFunc \<times> string) option"
where
  "lookup_route [] m p = None"
| "lookup_route ((m', pat, h) # rs) m p =
     (if m' = m then
        (case match_path pat p of
           Some v \<Rightarrow> Some (h, v)
         | None \<Rightarrow> lookup_route rs m p)
      else lookup_route rs m p)"

definition run_handler :: "HandlerFunc \<Rightarrow> Context \<Rightarrow> DB \<Rightarrow> response \<times> DB" where
  "run_handler h =
     (case h of
        controllers_FindBooks \<Rightarrow> FindBooks
      | controllers_FindBook \<Rightarrow> FindBook
      | controllers_CreateBook \<Rightarrow> CreateBook
      | controllers_UpdateBook \<Rightarrow> UpdateBook
      | controllers_DeleteBook \<Rightarrow> DeleteBook)"

record request =
  req_verb :: verb
  req_path :: "string list"
  req_body :: body

text \<open>
  Serving one request: \<open>None\<close> when no handler is registered for the method and path
  (the router answers by itself and no handler of the program runs).
\<close>

definition serve :: "request \<Rightarrow> DB \<Rightarrow> (response \<times> DB) option" where
  "serve r db =
     (case lookup_route routes (req_verb r) (req_path r) of
        None \<Rightarrow> None
      | Some (h, v) \<Rightarrow> Some (run_handler h \<lparr>Param_id = v, Body = req_body r\<rparr> db))"

section \<open>Sample data\<close>

text \<open>The store before any request, and the store holding the book of the README's
  example, both on the SQLite backend.\<close>

definition empty_db :: DB where
  "empty_db = \<lparr>books = [], key_of_text = sqlite_key_of_text, failing = {}, calls = []\<rparr>"

definition sample_book :: Book where
  "sample_book = \<lparr>ID = 1, Title = ''Start with Why'', Author = ''Simon Sinek''\<rparr>"

definition sample_db :: DB where
  "sample_db = \<lparr>books = [sample_book], key_of_text = sqlite_key_of_text, failing = {}, calls = []\<rparr>"

section \<open>Facts about the storage backend\<close>

declare param_of_id.simps [simp del]

lemma param_of_id_not_Nil: "param_of_id n \<noteq> []"
  by (subst param_of_id.simps) simp

lemma is_digit_digit_char: "d < 10 \<Longrightarrow> is_digit (digit_char d)"
  by (simp add: is_digit_def digit_char_def)

lemma of_char_digit_char: "d < 10 \<Longrightarrow> (of_char (digit_char d) :: nat) - 48 = d"
  by (simp add: digit_char_def)

lemma digit_not_space: "is_digit c \<Longrightarrow> \<not> is_space c"
  by (auto simp: is_digit_def is_space_def)

lemma digit_not_sign: "is_digit c \<Longrightarrow> c \<noteq> CHR ''-'' \<and> c \<noteq> CHR ''+''"
  by (auto simp: is_digit_def)

lemma param_of_id_digits: "\<forall>c\<in>set (param_of_id n). is_digit c"
proof (induction n rule: param_of_id.induct)
  case (1 n)
  show ?case
  proof (cases "n < 10")
    case True
    then show ?thesis
      by (subst param_of_id.simps) (simp add: is_digit_digit_char)
  next
    case False
    with 1 have "\<forall>c\<in>set (param_of_id (n div 10)). is_digit c" by simp
    with False show ?thesis
      by (subst param_of_id.simps) (simp add: is_digit_digit_char)
  qed
qed

lemma digits_nat_snoc: "digits_nat (ds @ [c]) = 10 * digits_nat ds + (of_char c - 48)"
  by (simp add: digits_nat_def)

lemma digits_nat_param_of_id: "digits_nat (param_of_id n) = n"
proof (induction n rule: param_of_id.induct)
  case (1 n)
  show ?case
  proof (cases "n < 10")
    case True
    then show ?thesis
      by (subst param_of_id.simps) (simp add: digits_nat_def of_char_digit_char)
  next
    case False
    with 1 have "digits_nat (param_of_id (n div 10)) = n div 10" by simp
    with False show ?thesis
      by (subst param_of_id.simps) (simp add: digits_nat_snoc of_char_digit_char)
  qed
qed

text \<open>SQLite reads the decimal text of a key as that key.\<close>

lemma sqlite_key_of_text_param_of_id: "sqlite_key_of_text (param_of_id n) = Some n"
proof -
  let ?ds = "param_of_id n"
  have digits: "\<forall>c\<in>set ?ds. is_digit c" by (rule param_of_id_digits)
  obtain c r where cr: "?ds = c # r"
    using param_of_id_not_Nil [of n] by (cases ?ds) auto
  with digits have c: "is_digit c" by simp
  have space: "dropWhile is_space ?ds = ?ds"
    using c cr by (simp add: digit_not_space)
  have sign: "split_sign ?ds = (False, ?ds)"
    using digit_not_sign [OF c] cr by (simp add: split_sign_def)
  have tw: "takeWhile is_digit ?ds = ?ds" and dw: "dropWhile is_digit ?ds = []"
    using digits by simp_all
  show ?thesis
    by (simp add: sqlite_key_of_text_def space sign tw dw split_fraction_def split_exponent_def
        decimal_key_def digits_nat_param_of_id param_of_id_not_Nil)
qed

text \<open>SQLite reads a text without any digit as no key.\<close>

lemma set_split_sign: "set (snd (split_sign s)) \<subseteq> set s"
  by (cases s) (auto simp: split_sign_def)

lemma takeWhile_no_digit: "\<forall>c\<in>set s. \<not> is_digit c \<Longrightarrow> takeWhile is_digit s = []"
  by (cases s) auto

lemma dropWhile_no_digit: "\<forall>c\<in>set s. \<not> is_digit c \<Longrightarrow> dropWhile is_digit s = s"
  by (cases s) auto

lemma split_fraction_no_digit: "\<forall>c\<in>set s. \<not> is_digit c \<Longrightarrow> fst (split_fraction s) = []"
  by (cases s) (auto simp: split_fraction_def takeWhile_no_digit)

lemma sqlite_key_of_text_no_digit:
  assumes "\<forall>c\<in>set s. \<not> is_digit c"
  shows "sqlite_key_of_text s = None"
proof -
  obtain neg s2 where sign: "split_sign (dropWhile is_space s) = (neg, s2)"
    by (cases "split_sign (dropWhile is_space s)")
  have "set s2 \<subseteq> set (dropWhile is_space s)"
    using set_split_sign [of "dropWhile is_space s"] sign by simp
  also have "\<dots> \<subseteq> set s" by (rule set_dropWhileD [THEN subsetI])
  finally have s2: "\<forall>c\<in>set s2. \<not> is_digit c" using assms by auto
  obtain fp s4 where frac: "split_fraction (dropWhile is_digit s2) = (fp, s4)"
    by (cases "split_fraction (dropWhile is_digit s2)")
  have "fp = []"
    using split_fraction_no_digit [of s2] s2 frac by (simp add: dropWhile_no_digit)
  then show ?thesis
    by (simp add: sqlite_key_of_text_def sign frac takeWhile_no_digit [OF s2])
qed

lemma fold_max_ge: "(a::nat) \<le> fold max xs a"
  by (induction xs arbitrary: a) (auto intro: order_trans [OF max.cobounded2])

lemma fold_max_mem: "x \<in> set xs \<Longrightarrow> (x::nat) \<le> fold max xs a"
proof (induction xs arbitrary: a)
  case Nil
  then show ?case by simp
next
  case (Cons y ys)
  show ?case
  proof (cases "x = y")
    case True
    have "y \<le> max y a" by simp
    also have "\<dots> \<le> fold max ys (max y a)" by (rule fold_max_ge)
    finally show ?thesis using True by simp
  next
    case False
    with Cons show ?thesis by simp
  qed
qed

lemma next_id_fresh: "b \<in> set bs \<Longrightarrow> ID b < next_id bs"
  unfolding next_id_def by (simp add: fold_max_mem less_Suc_eq_le)

lemma next_id_not_in: "next_id bs \<notin> ID ` set bs"
  using next_id_fresh by fastforce

lemma next_id_pos: "0 < next_id bs"
  by (simp add: next_id_def)

lemma find_next_id: "find (\<lambda>b. ID b = next_id bs) bs = None"
  using next_id_fresh by (fastforce simp: find_None_iff)

lemma find_snoc:
  "find P (xs @ [x]) = (case find P xs of Some y \<Rightarrow> Some y | None \<Rightarrow> (if P x then Some x else None))"
  by (induction xs) auto

lemma books_journal [simp]: "books (journal k db) = books db"
  by (simp add: journal_def)

lemma failing_journal [simp]: "failing (journal k db) = failing db"
  by (simp add: journal_def)

lemma key_of_text_journal [simp]: "key_of_text (journal k db) = key_of_text db"
  by (simp add: journal_def)

lemma calls_journal [simp]: "calls (journal k db) = calls db @ [k]"
  by (simp add: journal_def)

lemma DB_First_found:
  "Op_First \<notin> failing db \<Longrightarrow> key_of_text db p = Some k \<Longrightarrow> find (\<lambda>b. ID b = k) (books db) = Some b
   \<Longrightarrow> DB_First p db = (Inr b, journal Op_First db)"
  by (simp add: DB_First_def)

lemma DB_First_absent:
  "\<forall>b\<in>set (books db). key_of_text db p \<noteq> Some (ID b)
   \<Longrightarrow> \<exists>e. DB_First p db = (Inl e, journal Op_First db)"
  by (auto simp: DB_First_def find_Some_iff split: option.splits)

lemma DB_First_snd: "snd (DB_First p db) = journal Op_First db"
  by (simp add: DB_First_def split: option.splits)

lemma assign_eq:
  "assign input b =
     \<lparr>ID = ID b,
      Title = (if update_Title input = [] then Title b else update_Title input),
      Author = (if update_Author input = [] then Author b else update_Author input)\<rparr>"
  by (cases b) (simp add: assign_def)

lemma assign_empty: "update_Title input = [] \<Longrightarrow> update_Author input = [] \<Longrightarrow> assign input b = b"
  by (cases b) (simp add: assign_def)

lemma ID_assign: "ID (assign input b) = ID b"
  by (simp add: assign_def)

lemma map_ID_assign: "map ID (map (\<lambda>r. if ID r = k then assign input r else r) bs) = map ID bs"
  by (induction bs) (simp_all add: ID_assign)

lemma DB_Updates_books:
  "books (snd (snd (DB_Updates book input db))) = books db
   \<or> books (snd (snd (DB_Updates book input db))) =
       map (\<lambda>r. if ID r = ID book then assign input r else r) (books db)"
  by (simp add: DB_Updates_def)

section \<open>What each handler does to the table\<close>

lemma FindBooks_books: "books (snd (FindBooks c db)) = books db"
  by (simp add: FindBooks_def DB_Find_def)

lemma FindBook_books: "books (snd (FindBook c db)) = books db"
  using DB_First_snd [of "Param_id c" db]
  by (cases "DB_First (Param_id c) db") (auto simp: FindBook_def split: sum.splits)

lemma CreateBook_books:
  "books (snd (CreateBook c db)) = books db
   \<or> (\<exists>t a. books (snd (CreateBook c db)) =
          books db @ [\<lparr>ID = next_id (books db), Title = t, Author = a\<rparr>])"
  by (auto simp: CreateBook_def DB_Create_def Let_def split: sum.splits)

lemma UpdateBook_ids: "map ID (books (snd (UpdateBook c db))) = map ID (books db)"
proof (cases "DB_First (Param_id c) db")
  case (Pair res db1)
  with DB_First_snd [of "Param_id c" db] have db1: "db1 = journal Op_First db" by simp
  show ?thesis
  proof (cases res)
    case (Inl e)
    with Pair db1 show ?thesis by (simp add: UpdateBook_def)
  next
    case (Inr book)
    show ?thesis
    proof (cases "ShouldBindJSON_update (Body c)")
      case (Inl e)
      with Pair Inr db1 show ?thesis by (simp add: UpdateBook_def)
    next
      case (Inr input)
      have "map ID (books (snd (snd (DB_Updates book input db1)))) = map ID (books db1)"
        using DB_Updates_books [of book input db1] by (elim disjE) (simp_all only: map_ID_assign)
      then have "map ID (books (snd (snd (DB_Updates book input db1)))) = map ID (books db)"
        by (simp add: db1)
      with Pair \<open>res = Inr book\<close> Inr show ?thesis
        by (cases "DB_Updates book input db1") (simp add: UpdateBook_def)
    qed
  qed
qed

lemma DeleteBook_books:
  "books (snd (DeleteBook c db)) = books db
   \<or> (\<exists>k. books (snd (DeleteBook c db)) = filter (\<lambda>r. ID r \<noteq> k) (books db))"
proof (cases "DB_First (Param_id c) db")
  case (Pair res db1)
  with DB_First_snd [of "Param_id c" db] have db1: "db1 = journal Op_First db" by simp
  show ?thesis
  proof (cases res)
    case (Inl e)
    with Pair db1 show ?thesis by (simp add: DeleteBook_def)
  next
    case (Inr book)
    with Pair db1 show ?thesis
      by (auto simp: DeleteBook_def DB_Delete_def)
  qed
qed

lemma run_handler_ids:
  "map ID (books (snd (run_handler h c db))) = map ID (books db)
   \<or> (\<exists>t a. books (snd (run_handler h c db)) =
          books db @ [\<lparr>ID = next_id (books db), Title = t, Author = a\<rparr>])
   \<or> (\<exists>k. books (snd (run_handler h c db)) = filter (\<lambda>r. ID r \<noteq> k) (books db))"
proof (cases h)
  case controllers_FindBooks
  then show ?thesis by (simp add: run_handler_def FindBooks_books)
next
  case controllers_FindBook
  then show ?thesis by (simp add: run_handler_def FindBook_books)
next
  case controllers_CreateBook
  then show ?thesis using CreateBook_books [of c db] by (auto simp: run_handler_def)
next
  case controllers_UpdateBook
  then show ?thesis by (simp add: run_handler_def UpdateBook_ids)
next
  case controllers_DeleteBook
  then show ?thesis using DeleteBook_books [of c db] by (auto simp: run_handler_def)
qed

lemma run_handler_distinct:
  assumes "distinct (map ID (books db))"
  shows "distinct (map ID (books (snd (run_handler h c db))))"
  using run_handler_ids [of h c db] assms next_id_not_in [of "books db"]
  by (auto simp: distinct_map_filter)

lemma run_handler_positive:
  assumes "0 \<notin> set (map ID (books db))"
  shows "0 \<notin> set (map ID (books (snd (run_handler h c db))))"
proof -
  let ?bs = "books (snd (run_handler h c db))"
  consider (same) "map ID ?bs = map ID (books db)"
    | (added) t a where "?bs = books db @ [\<lparr>ID = next_id (books db), Title = t, Author = a\<rparr>]"
    | (removed) k where "?bs = filter (\<lambda>r. ID r \<noteq> k) (books db)"
    using run_handler_ids [of h c db] by blast
  then show ?thesis
  proof cases
    case same
    with assms show ?thesis by simp
  next
    case added
    with assms next_id_pos [of "books db"] show ?thesis by auto
  next
    case removed
    with assms show ?thesis by auto
  qed
qed

section \<open>Routing\<close>

lemma serve_PUT:
  "p \<noteq> [] \<Longrightarrow>
   serve \<lparr>req_verb = PUT, req_path = [''books'', p], req_body = b\<rparr> db =
     Some (UpdateBook \<lparr>Param_id = p, Body = b\<rparr> db)"
  by (simp add: serve_def routes_def run_handler_def)

lemma serve_PATCH:
  "serve \<lparr>req_verb = PATCH, req_path = ps, req_body = b\<rparr> db = None"
  by (simp add: serve_def routes_def)

section \<open>Create, then fetch\<close>

text \<open>
  Claim C1. A create request whose body has a non-empty title and a non-empty author is
  answered with status 200 and the stored book, whose key is the one the backend
  assigned; fetching \<^verbatim>\<open>/books/{id}\<close> with the decimal text of that key afterwards is
  answered with the same response: same key, title and author. Both storage calls are
  assumed to succeed, and the backend to read the decimal text of the key as that key.
\<close>

theorem create_then_find_identical:
  assumes body: "Body c = Object j"
    and title: "json_title j = Some t" "t \<noteq> []"
    and author: "json_author j = Some a" "a \<noteq> []"
    and up: "Op_Create \<notin> failing db" "Op_First \<notin> failing db"
    and c': "Param_id c' = param_of_id (next_id (books db))"
    and reads: "key_of_text db (param_of_id (next_id (books db))) = Some (next_id (books db))"
  shows "fst (CreateBook c db) =
           JSON StatusOK (Data_Book \<lparr>ID = next_id (books db), Title = t, Author = a\<rparr>)
         \<and> fst (FindBook c' (snd (CreateBook c db))) = fst (CreateBook c db)"
proof -
  let ?b = "\<lparr>ID = next_id (books db), Title = t, Author = a\<rparr>"
  let ?db1 = "journal Op_Create (db\<lparr>books := books db @ [?b]\<rparr>)"
  have bind: "ShouldBindJSON_create (Body c) = Inr \<lparr>create_Title = t, create_Author = a\<rparr>"
    using body title author
    by (simp add: ShouldBindJSON_create_def field_def required_failures_def)
  have create: "CreateBook c db = (JSON StatusOK (Data_Book ?b), ?db1)"
    using up(1) by (simp add: CreateBook_def bind DB_Create_def Let_def)
  have "find (\<lambda>b. ID b = next_id (books db)) (books ?db1) = Some ?b"
    by (simp add: find_snoc find_next_id)
  moreover have "Op_First \<notin> failing ?db1" using up(2) by simp
  ultimately have "DB_First (Param_id c') ?db1 = (Inr ?b, journal Op_First ?db1)"
    using c' reads by (intro DB_First_found) simp_all
  then have "fst (FindBook c' ?db1) = JSON StatusOK (Data_Book ?b)"
    by (simp add: FindBook_def)
  with create show ?thesis by simp
qed

text \<open>
  The README's example: the first book gets key 1 and \<^verbatim>\<open>GET /books/1\<close> returns it.
\<close>

theorem create_then_find_identical_witness:
  "fst (CreateBook \<lparr>Param_id = [], Body = Object \<lparr>json_id = None,
        json_title = Some ''Start with Why'', json_author = Some ''Simon Sinek''\<rparr>\<rparr> empty_db)
     = JSON StatusOK (Data_Book \<lparr>ID = 1, Title = ''Start with Why'', Author = ''Simon Sinek''\<rparr>)
   \<and> fst (FindBook \<lparr>Param_id = ''1'', Body = Undecodable ''EOF''\<rparr>
        (snd (CreateBook \<lparr>Param_id = [], Body = Object \<lparr>json_id = None,
           json_title = Some ''Start with Why'', json_author = Some ''Simon Sinek''\<rparr>\<rparr> empty_db)))
     = JSON StatusOK (Data_Book \<lparr>ID = 1, Title = ''Start with Why'', Author = ''Simon Sinek''\<rparr>)"
proof -
  let ?j = "\<lparr>json_id = None, json_title = Some ''Start with Why'',
             json_author = Some ''Simon Sinek''\<rparr>"
  let ?c = "\<lparr>Param_id = [], Body = Object ?j\<rparr>"
  let ?c' = "\<lparr>Param_id = ''1'', Body = Undecodable ''EOF''\<rparr>"
  have n: "next_id (books empty_db) = 1" by code_simp
  have p: "Param_id ?c' = param_of_id (next_id (books empty_db))" by code_simp
  have up: "Op_Create \<notin> failing empty_db" "Op_First \<notin> failing empty_db"
    by (simp_all add: empty_db_def)
  have reads: "key_of_text empty_db (param_of_id (next_id (books empty_db))) =
                 Some (next_id (books empty_db))"
    by (simp add: empty_db_def sqlite_key_of_text_param_of_id)
  from create_then_find_identical [of ?c ?j "''Start with Why''" "''Simon Sinek''" empty_db ?c',
      OF _ _ _ _ _ up p reads]
  show ?thesis by (simp add: n)
qed

section \<open>Update is a merge\<close>

text \<open>
  Claim C2. For a stored book (its key \<open>k\<close> is positive, as every key the backend
  assigns) and a body that decodes, the update applies the non-empty fields of the body
  over the stored record: a field that is absent or empty keeps its value, the key is
  kept, and every row with another key is left as it was. The response carries the merged
  record. The lookup and the update statement are assumed to succeed.
\<close>

theorem update_merges_non_empty_fields:
  assumes found: "key_of_text db (Param_id c) = Some k" "find (\<lambda>r. ID r = k) (books db) = Some b"
    and pos: "0 < k"
    and body: "Body c = Object j"
    and up: "Op_First \<notin> failing db" "Op_Updates \<notin> failing db"
  shows "fst (UpdateBook c db) =
           JSON StatusOK (Data_Book
             \<lparr>ID = k,
              Title = (if field (json_title j) = [] then Title b else field (json_title j)),
              Author = (if field (json_author j) = [] then Author b else field (json_author j))\<rparr>)
         \<and> books (snd (UpdateBook c db)) =
             map (\<lambda>r. if ID r = k
                       then \<lparr>ID = ID r,
                             Title = (if field (json_title j) = [] then Title r else field (json_title j)),
                             Author = (if field (json_author j) = [] then Author r else field (json_author j))\<rparr>
                       else r) (books db)"
proof -
  let ?input = "\<lparr>update_Title = field (json_title j), update_Author = field (json_author j)\<rparr>"
  have idb: "ID b = k"
    using found(2) by (auto simp: find_Some_iff)
  have first: "DB_First (Param_id c) db = (Inr b, journal Op_First db)"
    using found up(1) by (rule DB_First_found [rotated])
  have bind: "ShouldBindJSON_update (Body c) = Inr ?input"
    using body by (simp add: ShouldBindJSON_update_def)
  have upd: "UpdateBook c db = (case DB_Updates b ?input (journal Op_First db) of
                (err, book', db2) \<Rightarrow> (JSON StatusOK (Data_Book book'), db2))"
    by (simp add: UpdateBook_def first bind)
  have merged: "map (\<lambda>r. if ID r = k then assign ?input r else r) (books db) =
             map (\<lambda>r. if ID r = k
                       then \<lparr>ID = ID r,
                             Title = (if field (json_title j) = [] then Title r else field (json_title j)),
                             Author = (if field (json_author j) = [] then Author r else field (json_author j))\<rparr>
                       else r) (books db)"
    by (rule map_cong) (simp_all add: assign_eq)
  have same: "field (json_title j) = [] \<Longrightarrow> field (json_author j) = [] \<Longrightarrow>
      map (\<lambda>r. if ID r = k then assign ?input r else r) (books db) = books db"
    by (rule map_idI) (simp add: assign_empty)
  have resp: "fst (UpdateBook c db) = JSON StatusOK (Data_Book (assign ?input b))"
    by (simp add: upd DB_Updates_def assign_empty)
  have rows: "books (snd (UpdateBook c db)) =
      map (\<lambda>r. if ID r = k then assign ?input r else r) (books db)"
    using idb pos up(2) by (simp add: upd DB_Updates_def same)
  show ?thesis
    unfolding resp rows merged by (simp add: assign_eq idb)
qed

text \<open>
  The README's example: patching only the title of book 1 keeps its author.
\<close>

theorem update_merges_non_empty_fields_witness:
  "fst (UpdateBook \<lparr>Param_id = ''1'', Body = Object \<lparr>json_id = None,
          json_title = Some ''The Infinite Game'', json_author = None\<rparr>\<rparr> sample_db)
     = JSON StatusOK (Data_Book \<lparr>ID = 1, Title = ''The Infinite Game'', Author = ''Simon Sinek''\<rparr>)
   \<and> books (snd (UpdateBook \<lparr>Param_id = ''1'', Body = Object \<lparr>json_id = None,
          json_title = Some ''The Infinite Game'', json_author = None\<rparr>\<rparr> sample_db))
     = [\<lparr>ID = 1, Title = ''The Infinite Game'', Author = ''Simon Sinek''\<rparr>]"
proof -
  let ?j = "\<lparr>json_id = None, json_title = Some ''The Infinite Game'', json_author = None\<rparr>"
  let ?c = "\<lparr>Param_id = ''1'', Body = Object ?j\<rparr>"
  have k: "key_of_text sample_db (Param_id ?c) = Some 1" by code_simp
  have f: "find (\<lambda>r. ID r = 1) (books sample_db) = Some sample_book"
    by (simp add: sample_db_def sample_book_def)
  from update_merges_non_empty_fields [OF k f, of ?j]
  show ?thesis by (simp add: sample_db_def sample_book_def field_def)
qed

section \<open>Validation and storage access\<close>

text \<open>
  Claim C3, as the code has it. \<^verbatim>\<open>CreateBook\<close> validates first: when binding fails
  it answers 400 with the binding error and makes no storage call (the store, journal
  included, is unchanged). \<^verbatim>\<open>UpdateBook\<close> looks the book up first: when binding fails,
  the journal has gained exactly the lookup, no write has been made and the table is
  unchanged; the answer is 400, with the not-found text when the lookup found nothing and
  with the binding error otherwise.
\<close>

theorem validation_failure_makes_no_write:
  "(ShouldBindJSON_create (Body c) = Inl e \<longrightarrow>
      CreateBook c db = (JSON StatusBadRequest (Error_Of e), db))
   \<and> (ShouldBindJSON_update (Body c) = Inl e \<longrightarrow>
        calls (snd (UpdateBook c db)) = calls db @ [Op_First]
        \<and> books (snd (UpdateBook c db)) = books db
        \<and> (fst (UpdateBook c db) = JSON StatusBadRequest (Error_Text ''Record not found!'')
           \<or> fst (UpdateBook c db) = JSON StatusBadRequest (Error_Of e)))"
proof -
  have "snd (UpdateBook c db) = journal Op_First db
        \<and> (fst (UpdateBook c db) = JSON StatusBadRequest (Error_Text ''Record not found!'')
           \<or> fst (UpdateBook c db) = JSON StatusBadRequest (Error_Of e))"
    if "ShouldBindJSON_update (Body c) = Inl e"
    using that DB_First_snd [of "Param_id c" db]
    by (cases "DB_First (Param_id c) db") (auto simp: UpdateBook_def split: sum.splits)
  then show ?thesis
    by (auto simp: CreateBook_def)
qed

theorem validation_failure_makes_no_write_witness:
  "CreateBook \<lparr>Param_id = ''1'', Body = Undecodable ''EOF''\<rparr> sample_db =
     (JSON StatusBadRequest (Error_Of (Decode_Error ''EOF'')), sample_db)
   \<and> calls (snd (UpdateBook \<lparr>Param_id = ''1'', Body = Undecodable ''EOF''\<rparr> sample_db)) =
       calls sample_db @ [Op_First]
   \<and> books (snd (UpdateBook \<lparr>Param_id = ''1'', Body = Undecodable ''EOF''\<rparr> sample_db)) =
       books sample_db"
proof -
  let ?c = "\<lparr>Param_id = ''1'', Body = Undecodable ''EOF''\<rparr>"
  have c: "ShouldBindJSON_create (Body ?c) = Inl (Decode_Error ''EOF'')"
    by (simp add: ShouldBindJSON_create_def)
  have u: "ShouldBindJSON_update (Body ?c) = Inl (Decode_Error ''EOF'')"
    by (simp add: ShouldBindJSON_update_def)
  from validation_failure_makes_no_write [of ?c "Decode_Error ''EOF''" sample_db] c u
  show ?thesis by blast
qed

text \<open>
  Claim C3 as stated fails for the update: with book 1 stored and a body that does not
  decode, the handler has called the storage (the lookup) before it answers with the
  binding error.
\<close>

theorem update_reads_storage_before_validation:
  "ShouldBindJSON_update (Undecodable ''EOF'') = Inl (Decode_Error ''EOF'')
   \<and> calls sample_db = []
   \<and> fst (UpdateBook \<lparr>Param_id = ''1'', Body = Undecodable ''EOF''\<rparr> sample_db) =
       JSON StatusBadRequest (Error_Of (Decode_Error ''EOF''))
   \<and> calls (snd (UpdateBook \<lparr>Param_id = ''1'', Body = Undecodable ''EOF''\<rparr> sample_db)) =
       [Op_First]"
  by code_simp

section \<open>Storage failures\<close>

text \<open>
  Claim C4, evaluated where the code departs from it. Only the lookups inspect
  \<^verbatim>\<open>.Error\<close>; the results of \<^verbatim>\<open>Create\<close>, \<^verbatim>\<open>Updates\<close>, \<^verbatim>\<open>Delete\<close> and
  \<^verbatim>\<open>Find\<close> are dropped. When the backend rejects the statement, the create handler
  answers 200 with a book whose key is 0 and that is not stored, the update handler answers
  200 with a record that was not written, the delete handler answers 200 with
  \<^verbatim>\<open>true\<close> while the row is still there, and the list handler answers 200 with the nil
  slice. At startup a failed migration is dropped too: \<^verbatim>\<open>ConnectDatabase\<close> returns
  without a panic and without setting the handle.
\<close>

theorem storage_failure_answered_with_success:
  "fst (CreateBook \<lparr>Param_id = [], Body = Object \<lparr>json_id = None,
          json_title = Some ''Start with Why'', json_author = Some ''Simon Sinek''\<rparr>\<rparr>
        (empty_db\<lparr>failing := {Op_Create}\<rparr>)) =
     JSON StatusOK (Data_Book \<lparr>ID = 0, Title = ''Start with Why'', Author = ''Simon Sinek''\<rparr>)
   \<and> books (snd (CreateBook \<lparr>Param_id = [], Body = Object \<lparr>json_id = None,
          json_title = Some ''Start with Why'', json_author = Some ''Simon Sinek''\<rparr>\<rparr>
        (empty_db\<lparr>failing := {Op_Create}\<rparr>))) = []
   \<and> fst (UpdateBook \<lparr>Param_id = ''1'', Body = Object \<lparr>json_id = None,
          json_title = Some ''The Infinite Game'', json_author = None\<rparr>\<rparr>
        (sample_db\<lparr>failing := {Op_Updates}\<rparr>)) =
     JSON StatusOK (Data_Book \<lparr>ID = 1, Title = ''The Infinite Game'', Author = ''Simon Sinek''\<rparr>)
   \<and> books (snd (UpdateBook \<lparr>Param_id = ''1'', Body = Object \<lparr>json_id = None,
          json_title = Some ''The Infinite Game'', json_author = None\<rparr>\<rparr>
        (sample_db\<lparr>failing := {Op_Updates}\<rparr>))) =
     [\<lparr>ID = 1, Title = ''Start with Why'', Author = ''Simon Sinek''\<rparr>]
   \<and> fst (DeleteBook \<lparr>Param_id = ''1'', Body = Undecodable ''EOF''\<rparr>
        (sample_db\<lparr>failing := {Op_Delete}\<rparr>)) =
     JSON StatusOK (Data_Bool True)
   \<and> books (snd (DeleteBook \<lparr>Param_id = ''1'', Body = Undecodable ''EOF''\<rparr>
        (sample_db\<lparr>failing := {Op_Delete}\<rparr>))) =
     [\<lparr>ID = 1, Title = ''Start with Why'', Author = ''Simon Sinek''\<rparr>]
   \<and> fst (FindBooks \<lparr>Param_id = [], Body = Undecodable ''EOF''\<rparr>
        (sample_db\<lparr>failing := {Op_Find}\<rparr>)) =
     JSON StatusOK (Data_Books None)
   \<and> ConnectDatabase (Inr empty_db) (Some ErrBackend) = Returned None"
  by (simp add: ConnectDatabase_def, code_simp)

section \<open>Ids that match no row\<close>

lemma on_handle_absent:
  assumes "\<forall>b\<in>set (books db). key_of_text db (Param_id c) \<noteq> Some (ID b)"
  shows "on_handle FindBook c (Some db) = (Responded NF, Some (journal Op_First db))
         \<and> on_handle UpdateBook c (Some db) = (Responded NF, Some (journal Op_First db))
         \<and> on_handle DeleteBook c (Some db) = (Responded NF, Some (journal Op_First db))"
proof -
  from DB_First_absent [OF assms]
  obtain e where "DB_First (Param_id c) db = (Inl e, journal Op_First db)" ..
  then show ?thesis
    by (simp add: on_handle_def FindBook_def UpdateBook_def DeleteBook_def)
qed

text \<open>
  Claim C5, as the code has it. In a process whose handle is set, when the backend's
  comparison \<^verbatim>\<open>id = ?\<close> equates the id of the path with no stored key, each of
  \<^verbatim>\<open>FindBook\<close>, \<^verbatim>\<open>UpdateBook\<close> and \<^verbatim>\<open>DeleteBook\<close> answers status 400 with
  \<^verbatim>\<open>{"error": "Record not found!"}\<close>, whatever the body and whatever the state of the
  backend, and has only made the lookup. The id equates with no stored key when it is no
  number in the backend's reading (on SQLite every text without a digit is such), or when
  it is a number that is the key of no stored book.
\<close>

theorem unmatched_id_is_record_not_found:
  assumes "(key_of_text db = sqlite_key_of_text \<and> (\<forall>ch\<in>set (Param_id c). \<not> is_digit ch))
           \<or> key_of_text db (Param_id c) = None
           \<or> (\<exists>k. key_of_text db (Param_id c) = Some k \<and> k \<notin> ID ` set (books db))"
  shows "on_handle FindBook c (Some db) = (Responded NF, Some (journal Op_First db))
         \<and> on_handle UpdateBook c (Some db) = (Responded NF, Some (journal Op_First db))
         \<and> on_handle DeleteBook c (Some db) = (Responded NF, Some (journal Op_First db))"
proof -
  from assms have "\<forall>b\<in>set (books db). key_of_text db (Param_id c) \<noteq> Some (ID b)"
  proof (elim disjE conjE)
    assume "key_of_text db = sqlite_key_of_text" and "\<forall>ch\<in>set (Param_id c). \<not> is_digit ch"
    then have "key_of_text db (Param_id c) = None"
      by (simp add: sqlite_key_of_text_no_digit)
    then show ?thesis by simp
  next
    assume "key_of_text db (Param_id c) = None"
    then show ?thesis by simp
  next
    assume "\<exists>k. key_of_text db (Param_id c) = Some k \<and> k \<notin> ID ` set (books db)"
    then show ?thesis by auto
  qed
  then show ?thesis by (rule on_handle_absent)
qed

text \<open>On the sample store: the id \<^verbatim>\<open>abc\<close> has no digit, SQLite reads the id
  \<^verbatim>\<open>1x\<close> as no number, and the id \<^verbatim>\<open>2\<close> is the key of no book.\<close>

theorem unmatched_id_is_record_not_found_witness:
  "on_handle FindBook \<lparr>Param_id = ''abc'', Body = Undecodable ''EOF''\<rparr> (Some sample_db) =
     (Responded NF, Some (journal Op_First sample_db))
   \<and> on_handle UpdateBook \<lparr>Param_id = ''abc'', Body = Undecodable ''EOF''\<rparr> (Some sample_db) =
     (Responded NF, Some (journal Op_First sample_db))
   \<and> on_handle DeleteBook \<lparr>Param_id = ''abc'', Body = Undecodable ''EOF''\<rparr> (Some sample_db) =
     (Responded NF, Some (journal Op_First sample_db))
   \<and> on_handle DeleteBook \<lparr>Param_id = ''1x'', Body = Undecodable ''EOF''\<rparr> (Some sample_db) =
     (Responded NF, Some (journal Op_First sample_db))
   \<and> on_handle FindBook \<lparr>Param_id = ''2'', Body = Undecodable ''EOF''\<rparr> (Some sample_db) =
     (Responded NF, Some (journal Op_First sample_db))"
proof -
  let ?c = "\<lparr>Param_id = ''abc'', Body = Undecodable ''EOF''\<rparr>"
  let ?c1 = "\<lparr>Param_id = ''1x'', Body = Undecodable ''EOF''\<rparr>"
  let ?c2 = "\<lparr>Param_id = ''2'', Body = Undecodable ''EOF''\<rparr>"
  have letters: "\<forall>ch\<in>set (Param_id ?c). \<not> is_digit ch"
    by (simp add: is_digit_def)
  have sqlite: "key_of_text sample_db = sqlite_key_of_text"
    by (simp add: sample_db_def)
  have no_number: "key_of_text sample_db (Param_id ?c1) = None" by code_simp
  have two: "key_of_text sample_db (Param_id ?c2) = Some 2" by code_simp
  have absent: "\<exists>k. key_of_text sample_db (Param_id ?c2) = Some k \<and> k \<notin> ID ` set (books sample_db)"
    unfolding two by (simp add: sample_db_def sample_book_def)
  from unmatched_id_is_record_not_found [of sample_db ?c, OF disjI1, OF conjI, OF sqlite letters]
    unmatched_id_is_record_not_found [of sample_db ?c1, OF disjI2, OF disjI1, OF no_number]
    unmatched_id_is_record_not_found [of sample_db ?c2, OF disjI2, OF disjI2, OF absent]
  show ?thesis by simp
qed

text \<open>
  Claim C5 as stated fails. The handlers pass the text of the path to the backend as it
  is, and SQLite equates the ids \<^verbatim>\<open>1.0\<close>, \<^verbatim>\<open>1e0\<close> and \<^verbatim>\<open>1\<close> after a space with
  key 1: with book 1 stored, these ids are served with status 200 (the book is returned,
  updated, deleted). And in a process whose handle \<^verbatim>\<open>ConnectDatabase\<close> left unset, the
  handler panics instead of answering 400.
\<close>

theorem numeric_text_id_is_served:
  "fst (on_handle FindBook \<lparr>Param_id = ''1.0'', Body = Undecodable ''EOF''\<rparr> (Some sample_db)) =
     Responded (JSON StatusOK (Data_Book
       \<lparr>ID = 1, Title = ''Start with Why'', Author = ''Simon Sinek''\<rparr>))
   \<and> fst (on_handle UpdateBook \<lparr>Param_id = '' 1'', Body = Object \<lparr>json_id = None,
          json_title = Some ''The Infinite Game'', json_author = None\<rparr>\<rparr> (Some sample_db)) =
     Responded (JSON StatusOK (Data_Book
       \<lparr>ID = 1, Title = ''The Infinite Game'', Author = ''Simon Sinek''\<rparr>))
   \<and> fst (on_handle DeleteBook \<lparr>Param_id = ''1e0'', Body = Undecodable ''EOF''\<rparr> (Some sample_db)) =
     Responded (JSON StatusOK (Data_Bool True))
   \<and> books (snd (DeleteBook \<lparr>Param_id = ''1e0'', Body = Undecodable ''EOF''\<rparr> sample_db)) = []
   \<and> ConnectDatabase (Inr sample_db) (Some ErrBackend) = Returned None
   \<and> fst (on_handle FindBook \<lparr>Param_id = ''abc'', Body = Undecodable ''EOF''\<rparr> None) = Panicked"
  by (simp add: ConnectDatabase_def, code_simp)

section \<open>Delete\<close>

text \<open>
  Claim C6. Deleting a stored book (positive key, lookup and delete statement succeed)
  answers 200 with \<^verbatim>\<open>{"data": true}\<close> and removes every row with that key; fetching
  the same id afterwards, and deleting it a second time, both answer with the not-found
  response; so does deleting an id that matches no book in the first place.
\<close>

theorem delete_then_not_found:
  assumes found: "key_of_text db (Param_id c) = Some k" "find (\<lambda>r. ID r = k) (books db) = Some b"
    and pos: "0 < k"
    and up: "Op_First \<notin> failing db" "Op_Delete \<notin> failing db"
    and absent: "\<forall>r\<in>set (books db). key_of_text db (Param_id c') \<noteq> Some (ID r)"
  shows "fst (DeleteBook c db) = JSON StatusOK (Data_Bool True)
         \<and> books (snd (DeleteBook c db)) = filter (\<lambda>r. ID r \<noteq> k) (books db)
         \<and> fst (FindBook c (snd (DeleteBook c db))) = NF
         \<and> fst (DeleteBook c (snd (DeleteBook c db))) = NF
         \<and> fst (DeleteBook c' db) = NF"
proof -
  let ?db' = "journal Op_Delete ((journal Op_First db)\<lparr>books := filter (\<lambda>r. ID r \<noteq> k) (books db)\<rparr>)"
  have idb: "ID b = k"
    using found(2) by (auto simp: find_Some_iff)
  have first: "DB_First (Param_id c) db = (Inr b, journal Op_First db)"
    using found up(1) by (rule DB_First_found [rotated])
  have del: "DeleteBook c db = (JSON StatusOK (Data_Bool True), ?db')"
    using idb pos up(2) by (simp add: DeleteBook_def first DB_Delete_def)
  have gone: "\<forall>r\<in>set (books ?db'). key_of_text ?db' (Param_id c) \<noteq> Some (ID r)"
    using found(1) by simp
  have "FindBook c ?db' = (NF, journal Op_First ?db')"
    and "DeleteBook c ?db' = (NF, journal Op_First ?db')"
    using DB_First_absent [OF gone] by (auto simp: FindBook_def DeleteBook_def)
  moreover have "DeleteBook c' db = (NF, journal Op_First db)"
    using DB_First_absent [OF absent] by (auto simp: DeleteBook_def)
  ultimately show ?thesis
    by (simp add: del)
qed

theorem delete_then_not_found_witness:
  "fst (DeleteBook \<lparr>Param_id = ''1'', Body = Undecodable ''EOF''\<rparr> sample_db) =
     JSON StatusOK (Data_Bool True)
   \<and> books (snd (DeleteBook \<lparr>Param_id = ''1'', Body = Undecodable ''EOF''\<rparr> sample_db)) = []
   \<and> fst (FindBook \<lparr>Param_id = ''1'', Body = Undecodable ''EOF''\<rparr>
        (snd (DeleteBook \<lparr>Param_id = ''1'', Body = Undecodable ''EOF''\<rparr> sample_db))) =
     JSON StatusBadRequest (Error_Text ''Record not found!'')
   \<and> fst (DeleteBook \<lparr>Param_id = ''1'', Body = Undecodable ''EOF''\<rparr>
        (snd (DeleteBook \<lparr>Param_id = ''1'', Body = Undecodable ''EOF''\<rparr> sample_db))) =
     JSON StatusBadRequest (Error_Text ''Record not found!'')
   \<and> fst (DeleteBook \<lparr>Param_id = ''2'', Body = Undecodable ''EOF''\<rparr> sample_db) =
     JSON StatusBadRequest (Error_Text ''Record not found!'')"
proof -
  let ?c = "\<lparr>Param_id = ''1'', Body = Undecodable ''EOF''\<rparr>"
  let ?c2 = "\<lparr>Param_id = ''2'', Body = Undecodable ''EOF''\<rparr>"
  have k: "key_of_text sample_db (Param_id ?c) = Some 1" by code_simp
  have f: "find (\<lambda>r. ID r = 1) (books sample_db) = Some sample_book"
    by (simp add: sample_db_def sample_book_def)
  have two: "key_of_text sample_db (Param_id ?c2) = Some 2" by code_simp
  have a2: "\<forall>b\<in>set (books sample_db). key_of_text sample_db (Param_id ?c2) \<noteq> Some (ID b)"
    unfolding two by (simp add: sample_db_def sample_book_def)
  have up: "Op_First \<notin> failing sample_db" "Op_Delete \<notin> failing sample_db"
    by (simp_all add: sample_db_def)
  from delete_then_not_found [OF k f _ up a2]
  show ?thesis by (simp add: sample_db_def sample_book_def)
qed

section \<open>The empty update\<close>

text \<open>
  Claim C7. An update of a stored book whose body is an object with neither a title nor
  an author (or with empty ones) is answered 200 with the record as it was found, and the
  table is unchanged. Only the lookup is assumed to succeed: with nothing to assign no
  statement is run.
\<close>

theorem empty_update_is_noop:
  assumes found: "key_of_text db (Param_id c) = Some k" "find (\<lambda>r. ID r = k) (books db) = Some b"
    and body: "Body c = Object j" "field (json_title j) = []" "field (json_author j) = []"
    and up: "Op_First \<notin> failing db"
  shows "fst (UpdateBook c db) = JSON StatusOK (Data_Book b)
         \<and> books (snd (UpdateBook c db)) = books db"
proof -
  have first: "DB_First (Param_id c) db = (Inr b, journal Op_First db)"
    using found up by (rule DB_First_found [rotated])
  have bind: "ShouldBindJSON_update (Body c) = Inr \<lparr>update_Title = [], update_Author = []\<rparr>"
    using body by (simp add: ShouldBindJSON_update_def)
  show ?thesis
    by (simp add: UpdateBook_def first bind DB_Updates_def)
qed

theorem empty_update_is_noop_witness:
  "fst (UpdateBook \<lparr>Param_id = ''1'', Body = Object \<lparr>json_id = None,
          json_title = None, json_author = None\<rparr>\<rparr> sample_db)
     = JSON StatusOK (Data_Book \<lparr>ID = 1, Title = ''Start with Why'', Author = ''Simon Sinek''\<rparr>)
   \<and> books (snd (UpdateBook \<lparr>Param_id = ''1'', Body = Object \<lparr>json_id = None,
          json_title = None, json_author = None\<rparr>\<rparr> sample_db))
     = [\<lparr>ID = 1, Title = ''Start with Why'', Author = ''Simon Sinek''\<rparr>]"
proof -
  let ?j = "\<lparr>json_id = None, json_title = None, json_author = None\<rparr>"
  let ?c = "\<lparr>Param_id = ''1'', Body = Object ?j\<rparr>"
  have k: "key_of_text sample_db (Param_id ?c) = Some 1" by code_simp
  have f: "find (\<lambda>r. ID r = 1) (books sample_db) = Some sample_book"
    by (simp add: sample_db_def sample_book_def)
  from empty_update_is_noop [OF k f, of ?j]
  show ?thesis by (simp add: sample_db_def sample_book_def field_def)
qed

section \<open>Keys\<close>

text \<open>
  Claim C8. The key of a book comes from the backend and never changes: a valid create
  request stores the book under \<open>next_id\<close> of the table, whatever \<^verbatim>\<open>id\<close> member
  \<open>x\<close> its body carries; that key is positive and is the key of no row already stored;
  no update changes the keys of the table, row by row; and every handler keeps the keys of
  the table pairwise distinct, and positive.
\<close>

theorem ids_generated_immutable_unique:
  "(ShouldBindJSON_create (Object j) = Inr input \<longrightarrow> Op_Create \<notin> failing db \<longrightarrow>
      CreateBook \<lparr>Param_id = p, Body = Object (j\<lparr>json_id := x\<rparr>)\<rparr> db =
        (JSON StatusOK (Data_Book
           \<lparr>ID = next_id (books db), Title = create_Title input, Author = create_Author input\<rparr>),
         journal Op_Create (db\<lparr>books := books db @
           [\<lparr>ID = next_id (books db), Title = create_Title input, Author = create_Author input\<rparr>]\<rparr>)))
   \<and> 0 < next_id (books db)
   \<and> next_id (books db) \<notin> set (map ID (books db))
   \<and> map ID (books (snd (UpdateBook c db))) = map ID (books db)
   \<and> (distinct (map ID (books db)) \<longrightarrow> distinct (map ID (books (snd (run_handler h c db)))))
   \<and> (0 \<notin> set (map ID (books db)) \<longrightarrow> 0 \<notin> set (map ID (books (snd (run_handler h c db)))))"
proof -
  have "ShouldBindJSON_create (Object (j\<lparr>json_id := x\<rparr>)) = ShouldBindJSON_create (Object j)"
    by (simp add: ShouldBindJSON_create_def)
  then have create: "ShouldBindJSON_create (Object j) = Inr input \<Longrightarrow> Op_Create \<notin> failing db \<Longrightarrow>
      CreateBook \<lparr>Param_id = p, Body = Object (j\<lparr>json_id := x\<rparr>)\<rparr> db =
        (JSON StatusOK (Data_Book
           \<lparr>ID = next_id (books db), Title = create_Title input, Author = create_Author input\<rparr>),
         journal Op_Create (db\<lparr>books := books db @
           [\<lparr>ID = next_id (books db), Title = create_Title input, Author = create_Author input\<rparr>]\<rparr>))"
    by (simp add: CreateBook_def DB_Create_def Let_def)
  have fresh: "next_id (books db) \<notin> set (map ID (books db))"
    using next_id_not_in [of "books db"] by simp
  show ?thesis
    using create fresh next_id_pos [of "books db"] UpdateBook_ids [of c db]
      run_handler_distinct [of db h c] run_handler_positive [of db h c]
    by blast
qed

theorem ids_generated_immutable_unique_witness:
  "fst (CreateBook \<lparr>Param_id = [], Body = Object \<lparr>json_id = Some 42,
        json_title = Some ''Leaders Eat Last'', json_author = Some ''Simon Sinek''\<rparr>\<rparr> sample_db) =
     JSON StatusOK (Data_Book \<lparr>ID = 2, Title = ''Leaders Eat Last'', Author = ''Simon Sinek''\<rparr>)
   \<and> books (snd (CreateBook \<lparr>Param_id = [], Body = Object \<lparr>json_id = Some 42,
        json_title = Some ''Leaders Eat Last'', json_author = Some ''Simon Sinek''\<rparr>\<rparr> sample_db)) =
     [sample_book, \<lparr>ID = 2, Title = ''Leaders Eat Last'', Author = ''Simon Sinek''\<rparr>]
   \<and> map ID (books (snd (UpdateBook \<lparr>Param_id = ''1'', Body = Object \<lparr>json_id = Some 42,
        json_title = Some ''Leaders Eat Last'', json_author = None\<rparr>\<rparr> sample_db))) = [1]
   \<and> distinct (map ID (books (snd (run_handler controllers_CreateBook
        \<lparr>Param_id = ''1'', Body = Object \<lparr>json_id = Some 42,
        json_title = Some ''Leaders Eat Last'', json_author = None\<rparr>\<rparr> sample_db))))
   \<and> 0 \<notin> set (map ID (books (snd (run_handler controllers_CreateBook
        \<lparr>Param_id = ''1'', Body = Object \<lparr>json_id = Some 42,
        json_title = Some ''Leaders Eat Last'', json_author = None\<rparr>\<rparr> sample_db))))"
proof -
  let ?j = "\<lparr>json_id = None, json_title = Some ''Leaders Eat Last'', json_author = Some ''Simon Sinek''\<rparr>"
  let ?input = "\<lparr>create_Title = ''Leaders Eat Last'', create_Author = ''Simon Sinek''\<rparr>"
  let ?c = "\<lparr>Param_id = ''1'', Body = Object \<lparr>json_id = Some 42,
        json_title = Some ''Leaders Eat Last'', json_author = None\<rparr>\<rparr>"
  have valid: "ShouldBindJSON_create (Object ?j) = Inr ?input" by code_simp
  have up: "Op_Create \<notin> failing sample_db" by (simp add: sample_db_def)
  have n: "next_id [sample_book] = 2" by code_simp
  have i: "ID sample_book = 1" by (simp add: sample_book_def)
  from ids_generated_immutable_unique [of ?j ?input sample_db "[]" "Some 42" ?c controllers_CreateBook]
    valid up
  show ?thesis by (simp add: n i sample_db_def journal_def)
qed

section \<open>PUT and PATCH\<close>

text \<open>
  Claim C9, evaluated where the code departs from it. \<^verbatim>\<open>main\<close> registers
  \<^verbatim>\<open>UpdateBook\<close> for \<^verbatim>\<open>PUT /books/:id\<close> only: the README's
  \<^verbatim>\<open>PATCH /books/1\<close> reaches no handler, while the same request sent with
  \<^verbatim>\<open>PUT\<close> updates the book.
\<close>

theorem patch_is_not_routed:
  "serve \<lparr>req_verb = PATCH, req_path = [''books'', ''1''],
          req_body = Object \<lparr>json_id = None, json_title = Some ''The Infinite Game'',
                             json_author = None\<rparr>\<rparr> sample_db = None
   \<and> map_option fst
        (serve \<lparr>req_verb = PUT, req_path = [''books'', ''1''],
          req_body = Object \<lparr>json_id = None, json_title = Some ''The Infinite Game'',
                             json_author = None\<rparr>\<rparr> sample_db) =
       Some (JSON StatusOK (Data_Book
               \<lparr>ID = 1, Title = ''The Infinite Game'', Author = ''Simon Sinek''\<rparr>))"
  by (simp add: serve_PATCH serve_PUT, code_simp)

section \<open>Update: lookup before validation\<close>

text \<open>
  Claim C10. An update whose id matches no stored book is answered with the not-found
  response whatever its body is, also one that cannot be decoded: the answer is never a
  binding error, and the table is unchanged.
\<close>

theorem update_lookup_precedes_validation:
  assumes absent: "\<forall>b\<in>set (books db). key_of_text db (Param_id c) \<noteq> Some (ID b)"
  shows "fst (UpdateBook c db) = NF
         \<and> (\<forall>e. fst (UpdateBook c db) \<noteq> JSON StatusBadRequest (Error_Of e))
         \<and> books (snd (UpdateBook c db)) = books db"
proof -
  from DB_First_absent [OF absent]
  obtain e where "DB_First (Param_id c) db = (Inl e, journal Op_First db)" ..
  then show ?thesis
    by (simp add: UpdateBook_def JSON_def)
qed

theorem update_lookup_precedes_validation_witness:
  "fst (UpdateBook \<lparr>Param_id = ''2'', Body = Undecodable ''EOF''\<rparr> sample_db) =
     JSON StatusBadRequest (Error_Text ''Record not found!'')
   \<and> fst (UpdateBook \<lparr>Param_id = ''2'', Body = Undecodable ''EOF''\<rparr> sample_db) \<noteq>
       JSON StatusBadRequest (Error_Of (Decode_Error ''EOF''))
   \<and> books (snd (UpdateBook \<lparr>Param_id = ''2'', Body = Undecodable ''EOF''\<rparr> sample_db)) =
       books sample_db"
proof -
  let ?c2 = "\<lparr>Param_id = ''2'', Body = Undecodable ''EOF''\<rparr>"
  have two: "key_of_text sample_db (Param_id ?c2) = Some 2" by code_simp
  have a2: "\<forall>b\<in>set (books sample_db). key_of_text sample_db (Param_id ?c2) \<noteq> Some (ID b)"
    unfolding two by (simp add: sample_db_def sample_book_def)
  from update_lookup_precedes_validation [OF a2]
  show ?thesis by blast
qed

end
